theory Spec2Isabelle
  imports Complex_Main
begin

section \<open>Instants, durations and the calendar library\<close>

text \<open>
  The engine class \<^verbatim>\<open>BusinessTime\<close> of \<^verbatim>\<open>src/BusinessTime.ts\<close> holds a UTC instant of the
  calendar library, a precision (a duration) and a list of constraints.

  An instant is modelled by its value in milliseconds since 1970-01-01T00:00:00Z, a duration
  by its length in milliseconds (the library's \<^verbatim>\<open>valueOf\<close>). Modelling assumptions:
  \<^item> durations have no month part (hours, days, milliseconds only), so that a duration is a
    fixed number of milliseconds on the UTC timeline;
  \<^item> the range limit of the library's instants is not modelled (instants are unbounded
    integers), so the constructor's check for an invalid date never fires on an instant that
    the engine derives from a valid one;
  \<^item> the numbers of the host language (results of \<^verbatim>\<open>asSeconds\<close>, \<^verbatim>\<open>asDays\<close> and of the
    division of two such numbers) are exact rationals: floating-point rounding is not
    modelled. A division by zero gives a non-finite number, which is modelled.
\<close>

type_synonym moment = int
type_synonym duration = int

datatype unit_of_time = Millisecond | Second | Minute | Hour | Day

fun ms_per :: "unit_of_time \<Rightarrow> int" where
  "ms_per Millisecond = 1"
| "ms_per Second = 1000"
| "ms_per Minute = 60000"
| "ms_per Hour = 3600000"
| "ms_per Day = 86400000"

text \<open>The instant of a civil UTC date and time of day (what parsing an ISO-8601 string with
  a \<^verbatim>\<open>Z\<close> suffix yields): days since the epoch by the usual era computation.\<close>

definition days_from_civil :: "int \<Rightarrow> int \<Rightarrow> int \<Rightarrow> int" where
  "days_from_civil y m d =
     (let y' = (if m \<le> 2 then y - 1 else y);
          era = y' div 400;
          yoe = y' - era * 400;
          doy = (153 * (if 2 < m then m - 3 else m + 9) + 2) div 5 + d - 1;
          doe = yoe * 365 + yoe div 4 - yoe div 100 + doy
      in era * 146097 + doe - 719468)"

definition utc :: "int \<Rightarrow> int \<Rightarrow> int \<Rightarrow> int \<Rightarrow> int \<Rightarrow> int \<Rightarrow> int \<Rightarrow> moment" where
  "utc y m d hh mm ss ms =
     days_from_civil y m d * 86400000 + hh * 3600000 + mm * 60000 + ss * 1000 + ms"

text \<open>Getters of a UTC instant: hour of the day (0..23) and day of the week (0 = Sunday;
  the epoch was a Thursday).\<close>

definition hour_of :: "moment \<Rightarrow> int" where
  "hour_of t = (t mod 86400000) div 3600000"

definition day_of_week :: "moment \<Rightarrow> int" where
  "day_of_week t = (t div 86400000 + 4) mod 7"

text \<open>\<^verbatim>\<open>startOf(unit)\<close> and \<^verbatim>\<open>endOf(unit)\<close> of the calendar library, for the units of fixed
  length. On the library's object both \<^emph>\<open>mutate\<close> the instant they are called on and return
  it; these functions give the new value.\<close>

definition moment_startOf :: "unit_of_time \<Rightarrow> moment \<Rightarrow> moment" where
  "moment_startOf u t = t - t mod ms_per u"

definition moment_endOf :: "unit_of_time \<Rightarrow> moment \<Rightarrow> moment" where
  "moment_endOf u t = t - t mod ms_per u + ms_per u - 1"

text \<open>\<^verbatim>\<open>a.isSame(b, unit)\<close>: \<open>b\<close> lies between the start and the end of the unit around \<open>a\<close>.\<close>

definition isSame :: "moment \<Rightarrow> moment \<Rightarrow> unit_of_time \<Rightarrow> bool" where
  "isSame a b u = (moment_startOf u a \<le> b \<and> b \<le> moment_endOf u a)"

text \<open>Conversions of a duration to a number of a unit.\<close>

definition asSeconds :: "duration \<Rightarrow> rat" where
  "asSeconds d = of_int d / 1000"

definition asMinutes :: "duration \<Rightarrow> rat" where
  "asMinutes d = of_int d / 60000"

definition asHours :: "duration \<Rightarrow> rat" where
  "asHours d = of_int d / 3600000"

definition asDays :: "duration \<Rightarrow> rat" where
  "asDays d = of_int d / 86400000"

section \<open>Arbitrary-precision decimals\<close>

text \<open>
  A decimal of the arbitrary-precision library (\<^verbatim>\<open>Big\<close>) is modelled by the rational it
  denotes. \<^verbatim>\<open>round(dp, rm)\<close> rounds to \<open>dp\<close> decimal places with the library's rounding
  modes: 0 rounds towards zero, 1 to nearest with ties away from zero, 2 to nearest with
  ties to even, 3 away from zero. \<^verbatim>\<open>div\<close> rounds its quotient to the library's default of
  20 decimal places in mode 1, and throws on a zero divisor and on a divisor that is not
  a finite number.
\<close>

datatype error =
    InvalidDateTime
  | ZeroLengthBusinessDay
  | BusinessDayTooLong
  | DivisionByZero
  | InvalidNumber

datatype 'a outcome = Returned 'a | Threw error

datatype number = Finite rat | NotFinite

definition number_div :: "rat \<Rightarrow> rat \<Rightarrow> number" where
  "number_div a b = (if b = 0 then NotFinite else Finite (a / b))"

definition round_magnitude :: "nat \<Rightarrow> rat \<Rightarrow> int" where
  "round_magnitude rm x =
     (if rm = 0 then \<lfloor>x\<rfloor>
      else if rm = 1 then \<lfloor>x + 1 / 2\<rfloor>
      else if rm = 2 then
        (if x - of_int \<lfloor>x\<rfloor> < 1 / 2 then \<lfloor>x\<rfloor>
         else if 1 / 2 < x - of_int \<lfloor>x\<rfloor> then \<lfloor>x\<rfloor> + 1
         else if even \<lfloor>x\<rfloor> then \<lfloor>x\<rfloor> else \<lfloor>x\<rfloor> + 1)
      else \<lceil>x\<rceil>)"

definition Big_round :: "nat \<Rightarrow> nat \<Rightarrow> rat \<Rightarrow> rat" where
  "Big_round dp rm x =
     sgn x * of_int (round_magnitude rm (\<bar>x\<bar> * 10 ^ dp)) / 10 ^ dp"

definition Big_div :: "rat \<Rightarrow> number \<Rightarrow> rat outcome" where
  "Big_div x y =
     (case y of
        NotFinite \<Rightarrow> Threw InvalidNumber
      | Finite b \<Rightarrow> if b = 0 then Threw DivisionByZero else Returned (Big_round 20 1 (x / b)))"

text \<open>\<^verbatim>\<open>Number(x)\<close> of an integer-valued decimal, as an integer.\<close>

definition Number_of_Big :: "rat \<Rightarrow> int" where
  "Number_of_Big x = \<lfloor>x\<rfloor>"

section \<open>Constraints\<close>

text \<open>A constraint is consumed through its one method \<^verbatim>\<open>isBusinessTime(instant)\<close>, a pure
  predicate on the instant (it receives a copy of the engine's instant).\<close>

type_synonym constraint = "moment \<Rightarrow> bool"

text \<open>Modelled from the spec: the class \<^verbatim>\<open>BetweenHoursOfDay\<close> of \<^verbatim>\<open>constraint/BetweenHoursOfDay\<close>
  is not among the sources. The spec describes it as an hour-of-day window, \<open>09:00\<close> to
  \<open>17:00\<close> for the default \<open>(9, 17)\<close>, giving an 8-hour day at 1-hour precision: the hour of
  the instant is at least the minimum and below the maximum.\<close>

definition BetweenHoursOfDay :: "int \<Rightarrow> int \<Rightarrow> constraint" where
  "BetweenHoursOfDay lo hi t = (lo \<le> hour_of t \<and> hour_of t < hi)"

text \<open>Modelled from the spec: the class \<^verbatim>\<open>WeekDays\<close> of \<^verbatim>\<open>constraint/WeekDays\<close> is not among
  the sources. The spec describes it as the weekday set Monday to Friday.\<close>

definition WeekDays :: constraint where
  "WeekDays t = (1 \<le> day_of_week t \<and> day_of_week t \<le> 5)"

section \<open>The engine\<close>

text \<open>The fields of the class. \<open>moment\<close> is the value of the instant object that the engine
  owns: the constructor copies its input, \<^verbatim>\<open>getMoment\<close> hands out copies, so no other object
  aliases it. A method that changes the receiver's fields (its instant, through a mutating
  call of the calendar library, or its cache) returns the receiver's new state next to its
  result, also when it throws.\<close>

record BusinessTime =
  moment :: moment
  precision :: duration
  constraints :: "constraint list"
  lengthOfBusinessDayCached :: "duration option"

definition default_precision :: duration where
  "default_precision = 1 * ms_per Hour"

definition default_constraints :: "constraint list" where
  "default_constraints = [BetweenHoursOfDay 9 17, WeekDays]"

text \<open>The constructor, on an input that resolves to a valid instant; an omitted precision
  or constraint list is \<open>None\<close>.\<close>

definition new_BusinessTime ::
  "moment \<Rightarrow> duration option \<Rightarrow> constraint list option \<Rightarrow> BusinessTime" where
  "new_BusinessTime input prec cs =
     \<lparr> moment = input,
       precision = (case prec of Some p \<Rightarrow> p | None \<Rightarrow> default_precision),
       constraints = (case cs of Some c \<Rightarrow> c | None \<Rightarrow> default_constraints),
       lengthOfBusinessDayCached = None \<rparr>"

definition getMoment :: "BusinessTime \<Rightarrow> moment" where
  "getMoment this = moment this"

fun all_hold :: "constraint list \<Rightarrow> moment \<Rightarrow> bool" where
  "all_hold [] t = True"
| "all_hold (c # cs) t = (if \<not> c t then False else all_hold cs t)"

definition isBusinessTime :: "BusinessTime \<Rightarrow> bool" where
  "isBusinessTime this = all_hold (constraints this) (getMoment this)"

definition atMoment :: "BusinessTime \<Rightarrow> moment \<Rightarrow> BusinessTime" where
  "atMoment this time = new_BusinessTime time (Some (precision this)) (Some (constraints this))"

definition clone :: "BusinessTime \<Rightarrow> BusinessTime" where
  "clone this = new_BusinessTime (moment this) (Some (precision this)) (Some (constraints this))"

text \<open>\<^verbatim>\<open>add\<close> and \<^verbatim>\<open>subtract\<close> work on a copy of the receiver's instant. The amount is a number
  of the unit; a duration is passed as its milliseconds.\<close>

definition add :: "BusinessTime \<Rightarrow> int \<Rightarrow> unit_of_time \<Rightarrow> BusinessTime" where
  "add this amount u = atMoment this (moment this + amount * ms_per u)"

definition subtract :: "BusinessTime \<Rightarrow> int \<Rightarrow> unit_of_time \<Rightarrow> BusinessTime" where
  "subtract this amount u = atMoment this (moment this - amount * ms_per u)"

definition isAfter :: "BusinessTime \<Rightarrow> moment \<Rightarrow> bool" where
  "isAfter this inp = (inp < moment this)"

definition isBefore :: "BusinessTime \<Rightarrow> moment \<Rightarrow> bool" where
  "isBefore this inp = (moment this < inp)"

text \<open>\<^verbatim>\<open>startOf\<close> and \<^verbatim>\<open>endOf\<close> call the calendar library's mutating method on the receiver's
  own instant, not on a copy: the result is the pair of the new engine and the receiver
  afterwards.\<close>

definition startOf :: "unit_of_time \<Rightarrow> BusinessTime \<Rightarrow> BusinessTime \<times> BusinessTime" where
  "startOf u this =
     (let this' = this\<lparr>moment := moment_startOf u (moment this)\<rparr>
      in (atMoment this' (moment this'), this'))"

definition endOf :: "unit_of_time \<Rightarrow> BusinessTime \<Rightarrow> BusinessTime \<times> BusinessTime" where
  "endOf u this =
     (let this' = this\<lparr>moment := moment_endOf u (moment this)\<rparr>
      in (atMoment this' (moment this'), this'))"

section \<open>Stepping algorithms\<close>

text \<open>The loops of the engine step an engine by the precision. None of them bounds its
  number of steps, so each is a partial function: \<open>None\<close> stands for a loop that runs
  forever.\<close>

text \<open>The counting loop of \<^verbatim>\<open>diffInBusinessTime\<close>:
  \<^verbatim>\<open>while (next.isBefore(end)) { if (next.isBusinessTime()) diff = diff.add(1);
  next = next.add(this.precision) }\<close>.\<close>

partial_function (option) diffInBusinessTime_loop ::
  "duration \<Rightarrow> moment \<Rightarrow> BusinessTime \<Rightarrow> rat \<Rightarrow> rat option" where
  "diffInBusinessTime_loop p end next diff =
     (if isBefore next end
      then diffInBusinessTime_loop p end (add next p Millisecond)
             (if isBusinessTime next then diff + 1 else diff)
      else Some diff)"

text \<open>\<^verbatim>\<open>diffInBusinessTime(time, absolute)\<close>. The stepping engine is built by
  \<^verbatim>\<open>new BusinessTime(start.clone())\<close>, with no precision and no constraints given: it has the
  constructor's defaults, and the engines derived from it by \<^verbatim>\<open>add\<close> inherit them. The
  argument \<open>time\<close> is the instant to compare with (the caller's clock reading when the
  source's optional argument is omitted).\<close>

definition diffInBusinessTime :: "BusinessTime \<Rightarrow> moment \<Rightarrow> bool \<Rightarrow> rat option" where
  "diffInBusinessTime this time absolute =
     (if isSame time (getMoment this) Minute then Some 0
      else
        let (start, end, sign) =
              (if isAfter this time
               then (time, moment this, if absolute then 1 else - 1)
               else (moment this, time, 1))
        in case diffInBusinessTime_loop (precision this) end
                  (new_BusinessTime start None None) 0 of
             None \<Rightarrow> None
           | Some diff \<Rightarrow> Some (diff * sign))"

text \<open>\<^verbatim>\<open>diffBusiness\<close>: the count times the precision in seconds, as a duration given in
  seconds.\<close>

definition duration_of_seconds :: "rat \<Rightarrow> duration" where
  "duration_of_seconds s = \<lfloor>s * 1000\<rfloor>"

definition diffBusiness :: "BusinessTime \<Rightarrow> moment \<Rightarrow> bool \<Rightarrow> duration option" where
  "diffBusiness this time absolute =
     (case diffInBusinessTime this time absolute of
        None \<Rightarrow> None
      | Some diff \<Rightarrow> Some (duration_of_seconds (diff * asSeconds (precision this))))"

partial_function (option) startOfBusinessDay_loop ::
  "duration \<Rightarrow> BusinessTime \<Rightarrow> BusinessTime option" where
  "startOfBusinessDay_loop p start =
     (if \<not> isBusinessTime start
      then startOfBusinessDay_loop p (add start p Millisecond)
      else Some start)"

partial_function (option) endOfBusinessDay_loop ::
  "duration \<Rightarrow> BusinessTime \<Rightarrow> BusinessTime option" where
  "endOfBusinessDay_loop p end =
     (if \<not> isBusinessTime end
      then endOfBusinessDay_loop p (subtract end p Millisecond)
      else Some end)"

text \<open>\<^verbatim>\<open>startOfBusinessDay\<close> and \<^verbatim>\<open>endOfBusinessDay\<close>: the result and the receiver afterwards
  (\<^verbatim>\<open>this.startOf("day")\<close> has changed its instant).\<close>

definition startOfBusinessDay :: "BusinessTime \<Rightarrow> (BusinessTime \<times> BusinessTime) option" where
  "startOfBusinessDay this =
     (let (start, this') = startOf Day this
      in case startOfBusinessDay_loop (precision this') start of
           None \<Rightarrow> None
         | Some r \<Rightarrow> Some (r, this'))"

definition endOfBusinessDay :: "BusinessTime \<Rightarrow> (BusinessTime \<times> BusinessTime) option" where
  "endOfBusinessDay this =
     (let (end, this') = endOf Day this
      in case endOfBusinessDay_loop (precision this') end of
           None \<Rightarrow> None
         | Some r \<Rightarrow> Some (r, this'))"

section \<open>The length of a business day\<close>

text \<open>\<^verbatim>\<open>setLengthOfBusinessDay\<close> assigns the cache first and validates afterwards. It returns
  the receiver itself.\<close>

definition setLengthOfBusinessDay ::
  "duration \<Rightarrow> BusinessTime \<Rightarrow> BusinessTime outcome \<times> BusinessTime" where
  "setLengthOfBusinessDay d this =
     (let this' = this\<lparr>lengthOfBusinessDayCached := Some d\<rparr>
      in if asMinutes d \<le> 0 then (Threw ZeroLengthBusinessDay, this')
         else if 24 < asHours d then (Threw BusinessDayTooLong, this')
         else (Returned this', this'))"

definition typicalDay_default :: moment where
  "typicalDay_default = utc 2018 5 23 0 0 0 0"

definition determineLengthOfBusinessDay ::
  "moment option \<Rightarrow> BusinessTime \<Rightarrow> (BusinessTime outcome \<times> BusinessTime) option" where
  "determineLengthOfBusinessDay typicalDay this =
     (let typical = (case typicalDay of None \<Rightarrow> typicalDay_default | Some t \<Rightarrow> t);
          typicalBusinessDay = atMoment this typical
      in case startOfBusinessDay typicalBusinessDay of
           None \<Rightarrow> None
         | Some (sobd, typicalBusinessDay') \<Rightarrow>
             (case endOfBusinessDay typicalBusinessDay' of
                None \<Rightarrow> None
              | Some (eobd, typicalBusinessDay'') \<Rightarrow>
                  (case diffBusiness (atMoment this (getMoment sobd)) (getMoment eobd) True of
                     None \<Rightarrow> None
                   | Some len \<Rightarrow> Some (setLengthOfBusinessDay len this))))"

text \<open>\<^verbatim>\<open>lengthOfBusinessDay\<close>: the cached duration object is tested for presence only (any
  duration object counts as present). After a determination that returned, the cache is
  set, which the source's type assertion relies on.\<close>

definition lengthOfBusinessDay :: "BusinessTime \<Rightarrow> (duration outcome \<times> BusinessTime) option" where
  "lengthOfBusinessDay this =
     (case lengthOfBusinessDayCached this of
        Some d \<Rightarrow> Some (Returned d, this)
      | None \<Rightarrow>
          (case determineLengthOfBusinessDay None this of
             None \<Rightarrow> None
           | Some (Threw e, this') \<Rightarrow> Some (Threw e, this')
           | Some (Returned r, this') \<Rightarrow>
               Some (Returned (the (lengthOfBusinessDayCached this')), this')))"

section \<open>Differences in business days\<close>

text \<open>\<^verbatim>\<open>diffInPartialBusinessDays\<close>: the receiver's \<^verbatim>\<open>diffInBusinessTime\<close> is evaluated first,
  then the divisor, which may fill the cache. In the source the divisor is the quotient of
  two floating-point numbers; here it is the exact quotient (see the modelling assumptions):
  the two agree where the quotient is a floating-point number itself, as for a length of 8
  hours and a precision of 1 hour, and otherwise differ in the last digits, as for a
  precision of 7 minutes.\<close>

definition diffInPartialBusinessDays ::
  "BusinessTime \<Rightarrow> moment \<Rightarrow> bool \<Rightarrow> (rat outcome \<times> BusinessTime) option" where
  "diffInPartialBusinessDays this time absolute =
     (case diffInBusinessTime this time absolute of
        None \<Rightarrow> None
      | Some diff \<Rightarrow>
          (case lengthOfBusinessDay this of
             None \<Rightarrow> None
           | Some (Threw e, this') \<Rightarrow> Some (Threw e, this')
           | Some (Returned len, this') \<Rightarrow>
               Some (Big_div diff (number_div (asSeconds len) (asSeconds (precision this'))),
                     this')))"

definition diffInBusinessDays ::
  "BusinessTime \<Rightarrow> moment \<Rightarrow> bool \<Rightarrow> (rat outcome \<times> BusinessTime) option" where
  "diffInBusinessDays this time absolute =
     (case diffInPartialBusinessDays this time absolute of
        None \<Rightarrow> None
      | Some (Threw e, this') \<Rightarrow> Some (Threw e, this')
      | Some (Returned partial, this') \<Rightarrow> Some (Returned (Big_round 0 0 partial), this'))"

section \<open>Adding and subtracting business days\<close>

text \<open>The whole-day jump of \<^verbatim>\<open>addBusinessDays\<close> and \<^verbatim>\<open>subBusinessDays\<close>:
  \<^verbatim>\<open>businessDays.round(0, 0)\<close>.\<close>

definition daysToJump :: "rat \<Rightarrow> rat" where
  "daysToJump businessDays = Big_round 0 0 businessDays"

text \<open>The loops that correct by the residual. The forward loop tests the engine before it
  advances, the backward loop after it has stepped back.\<close>

partial_function (option) addBusinessDays_loop ::
  "duration \<Rightarrow> rat \<Rightarrow> rat \<Rightarrow> BusinessTime \<Rightarrow> BusinessTime option" where
  "addBusinessDays_loop p decrement businessDaysToAdd next =
     (if 0 < businessDaysToAdd
      then addBusinessDays_loop p decrement
             (if isBusinessTime next then businessDaysToAdd - decrement else businessDaysToAdd)
             (add next p Millisecond)
      else Some next)"

partial_function (option) subBusinessDays_loop ::
  "duration \<Rightarrow> rat \<Rightarrow> rat \<Rightarrow> BusinessTime \<Rightarrow> BusinessTime option" where
  "subBusinessDays_loop p decrement businessDaysToSub prev =
     (if 0 < businessDaysToSub
      then subBusinessDays_loop p decrement
             (if isBusinessTime (subtract prev p Millisecond)
              then businessDaysToSub - decrement else businessDaysToSub)
             (subtract prev p Millisecond)
      else Some prev)"

text \<open>What follows the jump, in both methods: the business time covered by the jump is
  taken off the amount, the decrement of one step is computed, and the loop runs from the
  engine \<open>jumped\<close> that the jump gave. In the source the decrement is the quotient, to 20
  decimal places, of the decimals of two floating-point numbers (the precision and the
  length in days); here it is the quotient of the exact values. The two differ in the last
  digits, and where the residual comes within that distance of zero the source's loop and
  this one can stop one step apart (at a precision of 2 hours, for instance); the results
  below that run the loop are at inputs where both stop at the same step.\<close>

definition correct_by_residual ::
  "(duration \<Rightarrow> rat \<Rightarrow> rat \<Rightarrow> BusinessTime \<Rightarrow> BusinessTime option) \<Rightarrow>
   rat \<Rightarrow> BusinessTime \<Rightarrow> BusinessTime \<Rightarrow> (BusinessTime outcome \<times> BusinessTime) option" where
  "correct_by_residual loop businessDays jumped this =
     (case diffInPartialBusinessDays this (getMoment jumped) True of
        None \<Rightarrow> None
      | Some (Threw e, this') \<Rightarrow> Some (Threw e, this')
      | Some (Returned covered, this') \<Rightarrow>
          (case lengthOfBusinessDay this' of
             None \<Rightarrow> None
           | Some (Threw e, this'') \<Rightarrow> Some (Threw e, this'')
           | Some (Returned len, this'') \<Rightarrow>
               (case Big_div (asDays (precision this'')) (Finite (asDays len)) of
                  Threw e \<Rightarrow> Some (Threw e, this'')
                | Returned decrement \<Rightarrow>
                    (case loop (precision this'') decrement (businessDays - covered) jumped of
                       None \<Rightarrow> None
                     | Some r \<Rightarrow> Some (Returned r, this'')))))"

text \<open>The bodies of the two methods for an amount that is not negative.\<close>

definition addBusinessDays_forward ::
  "rat \<Rightarrow> BusinessTime \<Rightarrow> (BusinessTime outcome \<times> BusinessTime) option" where
  "addBusinessDays_forward businessDays this =
     correct_by_residual addBusinessDays_loop businessDays
       (add this (Number_of_Big (daysToJump businessDays)) Day) this"

definition subBusinessDays_backward ::
  "rat \<Rightarrow> BusinessTime \<Rightarrow> (BusinessTime outcome \<times> BusinessTime) option" where
  "subBusinessDays_backward businessDays this =
     correct_by_residual subBusinessDays_loop businessDays
       (subtract this (Number_of_Big (daysToJump businessDays)) Day) this"

text \<open>A negative amount is handed to the other method with its absolute value, which
  that method then treats as its own amount.\<close>

definition addBusinessDays ::
  "rat \<Rightarrow> BusinessTime \<Rightarrow> (BusinessTime outcome \<times> BusinessTime) option" where
  "addBusinessDays businessDays this =
     (if businessDays < 0 then subBusinessDays_backward \<bar>businessDays\<bar> this
      else addBusinessDays_forward businessDays this)"

definition subBusinessDays ::
  "rat \<Rightarrow> BusinessTime \<Rightarrow> (BusinessTime outcome \<times> BusinessTime) option" where
  "subBusinessDays businessDays this =
     (if businessDays < 0 then addBusinessDays_forward \<bar>businessDays\<bar> this
      else subBusinessDays_backward businessDays this)"

declare diffInBusinessTime_loop.simps [code]
declare startOfBusinessDay_loop.simps [code]
declare endOfBusinessDay_loop.simps [code]
declare addBusinessDays_loop.simps [code]
declare subBusinessDays_loop.simps [code]

section \<open>The specification's readings\<close>

text \<open>The count of \<^verbatim>\<open>diffInBusinessTime\<close> as the specification words it: step \<open>x\<close> from the
  earlier instant by the precision, test the engine's own \<^verbatim>\<open>isBusinessTime\<close> at \<open>x\<close> before
  each advance, count the steps where it holds, until \<open>x\<close> has reached the later instant.\<close>

partial_function (option) business_steps ::
  "BusinessTime \<Rightarrow> moment \<Rightarrow> moment \<Rightarrow> rat \<Rightarrow> rat option" where
  "business_steps this end x counter =
     (if end \<le> x then Some counter
      else business_steps this end (x + precision this)
             (if isBusinessTime (atMoment this x) then counter + 1 else counter))"

declare business_steps.simps [code]

text \<open>The two roundings to an integer that occur: the specification's, to the nearest integer
  with ties away from zero, and the rounding towards zero.\<close>

definition round_half_away_from_zero :: "rat \<Rightarrow> rat" where
  "round_half_away_from_zero x = sgn x * of_int \<lfloor>\<bar>x\<bar> + 1 / 2\<rfloor>"

definition truncate_toward_zero :: "rat \<Rightarrow> rat" where
  "truncate_toward_zero x = (if 0 \<le> x then of_int \<lfloor>x\<rfloor> else of_int \<lceil>x\<rceil>)"

section \<open>Evaluation lemmas\<close>

lemmas engine_defs =
  new_BusinessTime_def atMoment_def add_def subtract_def isBusinessTime_def getMoment_def
  isBefore_def isAfter_def default_precision_def default_constraints_def
  BetweenHoursOfDay_def WeekDays_def hour_of_def day_of_week_def

lemmas calendar_defs =
  utc_def days_from_civil_def moment_startOf_def moment_endOf_def isSame_def

lemma typicalDay_default_value: "typicalDay_default = 1527033600000"
  by (simp add: typicalDay_default_def calendar_defs)

text \<open>The default engine at the reference day, Wednesday 2018-05-23: its business day starts
  at 09:00:00.000 and ends at 16:59:59.999, eight steps of one hour apart.\<close>

lemma startOfBusinessDay_typical:
  "startOfBusinessDay (new_BusinessTime 1527033600000 (Some 3600000) (Some default_constraints))
   = Some (new_BusinessTime 1527066000000 (Some 3600000) (Some default_constraints),
           new_BusinessTime 1527033600000 (Some 3600000) (Some default_constraints))"
  by (simp add: startOfBusinessDay_def startOf_def calendar_defs engine_defs Let_def
      startOfBusinessDay_loop.simps)

lemma endOfBusinessDay_typical:
  "endOfBusinessDay (new_BusinessTime 1527033600000 (Some 3600000) (Some default_constraints))
   = Some (new_BusinessTime 1527094799999 (Some 3600000) (Some default_constraints),
           new_BusinessTime 1527119999999 (Some 3600000) (Some default_constraints))"
  by (simp add: endOfBusinessDay_def endOf_def calendar_defs engine_defs Let_def
      endOfBusinessDay_loop.simps)

lemma diffBusiness_typical:
  "diffBusiness (new_BusinessTime 1527066000000 (Some 3600000) (Some default_constraints))
     1527094799999 True = Some 28800000"
  by (simp add: diffBusiness_def diffInBusinessTime_def calendar_defs engine_defs Let_def
      diffInBusinessTime_loop.simps duration_of_seconds_def asSeconds_def)

lemma atMoment_hourly_defaults:
  "atMoment (new_BusinessTime t (Some 3600000) (Some default_constraints)) m
   = new_BusinessTime m (Some 3600000) (Some default_constraints)"
  by (simp add: atMoment_def new_BusinessTime_def)

lemma determineLengthOfBusinessDay_hourly_defaults:
  "determineLengthOfBusinessDay None (new_BusinessTime t (Some 3600000) (Some default_constraints))
   = Some (setLengthOfBusinessDay 28800000
             (new_BusinessTime t (Some 3600000) (Some default_constraints)))"
  by (simp add: determineLengthOfBusinessDay_def typicalDay_default_value
      atMoment_hourly_defaults startOfBusinessDay_typical endOfBusinessDay_typical
      getMoment_def)
     (simp add: new_BusinessTime_def
      diffBusiness_typical [unfolded new_BusinessTime_def, simplified])

lemma lengthOfBusinessDay_hourly_defaults:
  "lengthOfBusinessDay (new_BusinessTime t (Some 3600000) (Some default_constraints))
   = Some (Returned 28800000,
       (new_BusinessTime t (Some 3600000) (Some default_constraints))
         \<lparr>lengthOfBusinessDayCached := Some 28800000\<rparr>)"
  using determineLengthOfBusinessDay_hourly_defaults [of t]
  by (simp add: lengthOfBusinessDay_def setLengthOfBusinessDay_def asMinutes_def asHours_def
      new_BusinessTime_def Let_def)

section \<open>The length setter\<close>

text \<open>
  Claim C5. \<^verbatim>\<open>setLengthOfBusinessDay(duration)\<close> throws the zero-length error exactly when the
  duration is at most zero, throws the over-24-hours error exactly when the duration exceeds
  24 hours, and for a duration above zero and at most 24 hours it returns the receiver with
  the duration cached, on which \<^verbatim>\<open>lengthOfBusinessDay()\<close> then returns that duration.
\<close>

theorem setLengthOfBusinessDay_validates:
  "(fst (setLengthOfBusinessDay d this) = Threw ZeroLengthBusinessDay \<longleftrightarrow> d \<le> 0) \<and>
   (fst (setLengthOfBusinessDay d this) = Threw BusinessDayTooLong \<longleftrightarrow> 24 * ms_per Hour < d) \<and>
   (0 < d \<and> d \<le> 24 * ms_per Hour \<longrightarrow>
      setLengthOfBusinessDay d this
        = (Returned (this\<lparr>lengthOfBusinessDayCached := Some d\<rparr>),
           this\<lparr>lengthOfBusinessDayCached := Some d\<rparr>) \<and>
      lengthOfBusinessDay (this\<lparr>lengthOfBusinessDayCached := Some d\<rparr>)
        = Some (Returned d, this\<lparr>lengthOfBusinessDayCached := Some d\<rparr>))"
  by (simp add: setLengthOfBusinessDay_def lengthOfBusinessDay_def asMinutes_def asHours_def
      Let_def)

theorem setLengthOfBusinessDay_validates_witness:
  "(0::int) < 28800000 \<and> (28800000::int) \<le> 24 * ms_per Hour \<and>
   setLengthOfBusinessDay 28800000 (new_BusinessTime 0 None None)
     = (Returned ((new_BusinessTime 0 None None)\<lparr>lengthOfBusinessDayCached := Some 28800000\<rparr>),
        (new_BusinessTime 0 None None)\<lparr>lengthOfBusinessDayCached := Some 28800000\<rparr>) \<and>
   lengthOfBusinessDay ((new_BusinessTime 0 None None)\<lparr>lengthOfBusinessDayCached := Some 28800000\<rparr>)
     = Some (Returned 28800000,
         (new_BusinessTime 0 None None)\<lparr>lengthOfBusinessDayCached := Some 28800000\<rparr>)"
  using setLengthOfBusinessDay_validates [of 28800000 "new_BusinessTime 0 None None"]
  by simp

text \<open>
  Claim C10. When \<^verbatim>\<open>setLengthOfBusinessDay\<close> is called with a duration that is at most zero or
  above 24 hours, it throws, but the receiver already holds that duration in its cache, and
  \<^verbatim>\<open>lengthOfBusinessDay()\<close> on the receiver afterwards returns the invalid duration without
  recomputing.
\<close>

theorem setLengthOfBusinessDay_not_atomic:
  "d \<le> 0 \<or> 24 * ms_per Hour < d \<Longrightarrow>
   (\<exists>e. fst (setLengthOfBusinessDay d this) = Threw e) \<and>
   lengthOfBusinessDayCached (snd (setLengthOfBusinessDay d this)) = Some d \<and>
   lengthOfBusinessDay (snd (setLengthOfBusinessDay d this))
     = Some (Returned d, snd (setLengthOfBusinessDay d this))"
  by (auto simp add: setLengthOfBusinessDay_def lengthOfBusinessDay_def asMinutes_def
      asHours_def Let_def)

theorem setLengthOfBusinessDay_not_atomic_witness:
  "((90000000::int) \<le> 0 \<or> 24 * ms_per Hour < 90000000) \<and>
   fst (setLengthOfBusinessDay 90000000 (new_BusinessTime 0 None None)) = Threw BusinessDayTooLong \<and>
   lengthOfBusinessDay (snd (setLengthOfBusinessDay 90000000 (new_BusinessTime 0 None None)))
     = Some (Returned 90000000, snd (setLengthOfBusinessDay 90000000 (new_BusinessTime 0 None None)))"
proof -
  have h: "(90000000::int) \<le> 0 \<or> 24 * ms_per Hour < 90000000"
    by simp
  have "fst (setLengthOfBusinessDay 90000000 (new_BusinessTime 0 None None))
          = Threw BusinessDayTooLong"
    by (simp add: setLengthOfBusinessDay_def asMinutes_def asHours_def Let_def)
  with h setLengthOfBusinessDay_not_atomic [OF h, of "new_BusinessTime 0 None None"]
  show ?thesis by blast
qed

section \<open>The length of the default business day\<close>

text \<open>The determination of the length, for every engine with nothing cached: the start of
  the business day of the temporary engine at the reference date, then the end of its
  business day, then \<^verbatim>\<open>diffBusiness\<close> from the one to the other, whose duration goes through
  the setter and is what \<^verbatim>\<open>lengthOfBusinessDay\<close> returns.\<close>

lemma lengthOfBusinessDay_derivation:
  "lengthOfBusinessDay (this\<lparr>lengthOfBusinessDayCached := None\<rparr>)
   = Option.bind (startOfBusinessDay (atMoment this typicalDay_default))
       (\<lambda>(sobd, typical').
          Option.bind (endOfBusinessDay typical')
            (\<lambda>(eobd, typical'').
               Option.bind
                 (diffBusiness (atMoment this (getMoment sobd)) (getMoment eobd) True)
                 (\<lambda>len.
                    Some (case setLengthOfBusinessDay len
                                 (this\<lparr>lengthOfBusinessDayCached := None\<rparr>) of
                            (r, this') \<Rightarrow> (map_outcome (\<lambda>_. len) r, this')))))"
proof -
  have at: "atMoment (this\<lparr>lengthOfBusinessDayCached := None\<rparr>) m = atMoment this m" for m
    by (simp add: atMoment_def)
  show ?thesis
    by (auto simp add: lengthOfBusinessDay_def determineLengthOfBusinessDay_def at
        setLengthOfBusinessDay_def Let_def
        split: option.splits prod.splits outcome.splits if_splits)
qed

text \<open>
  Claim C7. For every engine with the default constraints (hours 09:00 to 17:00, Monday to
  Friday) and a precision of one hour, whatever its instant, the lazily computed
  \<^verbatim>\<open>lengthOfBusinessDay()\<close> is exactly 8 hours and is cached on the receiver. The length of
  an engine with nothing cached is derived from a temporary engine at the reference date
  2018-05-23 with the engine's constraints and precision: the start of its business day,
  then the end of its business day, then \<^verbatim>\<open>diffBusiness\<close> from the one to the other, whose
  duration is validated, cached and returned (first conjunct, for any engine). For the
  default constraints and one hour these are 09:00:00.000, 16:59:59.999 and 8 hours.
\<close>

theorem lengthOfBusinessDay_default_8h:
  "lengthOfBusinessDay (this\<lparr>lengthOfBusinessDayCached := None\<rparr>)
     = Option.bind (startOfBusinessDay (atMoment this typicalDay_default))
         (\<lambda>(sobd, typical').
            Option.bind (endOfBusinessDay typical')
              (\<lambda>(eobd, typical'').
                 Option.bind
                   (diffBusiness (atMoment this (getMoment sobd)) (getMoment eobd) True)
                   (\<lambda>len.
                      Some (case setLengthOfBusinessDay len
                                   (this\<lparr>lengthOfBusinessDayCached := None\<rparr>) of
                              (r, this') \<Rightarrow> (map_outcome (\<lambda>_. len) r, this'))))) \<and>
   lengthOfBusinessDay (new_BusinessTime t (Some (1 * ms_per Hour)) (Some default_constraints))
     = Some (Returned (8 * ms_per Hour),
         (new_BusinessTime t (Some (1 * ms_per Hour)) (Some default_constraints))
           \<lparr>lengthOfBusinessDayCached := Some (8 * ms_per Hour)\<rparr>) \<and>
   lengthOfBusinessDay (new_BusinessTime t None None)
     = Some (Returned (8 * ms_per Hour),
         (new_BusinessTime t None None)\<lparr>lengthOfBusinessDayCached := Some (8 * ms_per Hour)\<rparr>) \<and>
   typicalDay_default = utc 2018 5 23 0 0 0 0 \<and>
   map_option (moment \<circ> fst)
     (startOfBusinessDay
        (atMoment (new_BusinessTime t (Some (1 * ms_per Hour)) (Some default_constraints))
           typicalDay_default))
     = Some (utc 2018 5 23 9 0 0 0) \<and>
   map_option (moment \<circ> fst)
     (endOfBusinessDay
        (atMoment (new_BusinessTime t (Some (1 * ms_per Hour)) (Some default_constraints))
           typicalDay_default))
     = Some (utc 2018 5 23 16 59 59 999) \<and>
   Option.bind
     (startOfBusinessDay
        (atMoment (new_BusinessTime t (Some (1 * ms_per Hour)) (Some default_constraints))
           typicalDay_default))
     (\<lambda>(sobd, typical'). map_option (moment \<circ> fst) (endOfBusinessDay typical'))
     = Some (utc 2018 5 23 16 59 59 999) \<and>
   diffBusiness
     (atMoment (new_BusinessTime t (Some (1 * ms_per Hour)) (Some default_constraints))
        (utc 2018 5 23 9 0 0 0))
     (utc 2018 5 23 16 59 59 999) True
     = Some (8 * ms_per Hour)"
proof -
  have none: "new_BusinessTime t None None
      = new_BusinessTime t (Some 3600000) (Some default_constraints)"
    by (simp add: new_BusinessTime_def default_precision_def)
  have start: "utc 2018 5 23 9 0 0 0 = 1527066000000"
    and finish: "utc 2018 5 23 16 59 59 999 = 1527094799999"
    by (simp_all add: calendar_defs)
  have vals: "lengthOfBusinessDay
        (new_BusinessTime t (Some (1 * ms_per Hour)) (Some default_constraints))
      = Some (Returned (8 * ms_per Hour),
          (new_BusinessTime t (Some (1 * ms_per Hour)) (Some default_constraints))
            \<lparr>lengthOfBusinessDayCached := Some (8 * ms_per Hour)\<rparr>) \<and>
    lengthOfBusinessDay (new_BusinessTime t None None)
      = Some (Returned (8 * ms_per Hour),
          (new_BusinessTime t None None)
            \<lparr>lengthOfBusinessDayCached := Some (8 * ms_per Hour)\<rparr>) \<and>
    typicalDay_default = utc 2018 5 23 0 0 0 0 \<and>
    map_option (moment \<circ> fst)
      (startOfBusinessDay
         (atMoment (new_BusinessTime t (Some (1 * ms_per Hour)) (Some default_constraints))
            typicalDay_default))
      = Some (utc 2018 5 23 9 0 0 0) \<and>
    map_option (moment \<circ> fst)
      (endOfBusinessDay
         (atMoment (new_BusinessTime t (Some (1 * ms_per Hour)) (Some default_constraints))
            typicalDay_default))
      = Some (utc 2018 5 23 16 59 59 999) \<and>
    Option.bind
      (startOfBusinessDay
         (atMoment (new_BusinessTime t (Some (1 * ms_per Hour)) (Some default_constraints))
            typicalDay_default))
      (\<lambda>(sobd, typical'). map_option (moment \<circ> fst) (endOfBusinessDay typical'))
      = Some (utc 2018 5 23 16 59 59 999) \<and>
    diffBusiness
      (atMoment (new_BusinessTime t (Some (1 * ms_per Hour)) (Some default_constraints))
         (utc 2018 5 23 9 0 0 0))
      (utc 2018 5 23 16 59 59 999) True
      = Some (8 * ms_per Hour)"
    using lengthOfBusinessDay_hourly_defaults [of t]
    by (simp add: none start finish typicalDay_default_value atMoment_hourly_defaults
        startOfBusinessDay_typical endOfBusinessDay_typical diffBusiness_typical)
       (simp add: new_BusinessTime_def typicalDay_default_value [symmetric]
        typicalDay_default_def)
  from lengthOfBusinessDay_derivation [of this] vals show ?thesis
    by (rule conjI)
qed

section \<open>The start and the end of a business day\<close>

lemma monday_noon_values:
  "utc 2018 5 21 12 0 0 0 = 1526904000000"
  "utc 2018 5 21 0 0 0 0 = 1526860800000"
  "utc 2018 5 21 9 0 0 0 = 1526893200000"
  "utc 2018 5 21 16 0 0 0 = 1526918400000"
  "utc 2018 5 21 16 59 59 999 = 1526921999999"
  "utc 2018 5 21 23 59 59 999 = 1526947199999"
  by (simp_all add: calendar_defs)

lemma startOfBusinessDay_monday_noon:
  "startOfBusinessDay (new_BusinessTime 1526904000000 None None)
   = Some (new_BusinessTime 1526893200000 None None, new_BusinessTime 1526860800000 None None)"
  by (simp add: startOfBusinessDay_def startOf_def calendar_defs engine_defs Let_def
      startOfBusinessDay_loop.simps)

lemma endOfBusinessDay_monday_noon:
  "endOfBusinessDay (new_BusinessTime 1526904000000 None None)
   = Some (new_BusinessTime 1526921999999 None None, new_BusinessTime 1526947199999 None None)"
  by (simp add: endOfBusinessDay_def endOf_def calendar_defs engine_defs Let_def
      endOfBusinessDay_loop.simps)

lemma endOfBusinessDay_monday_midnight:
  "endOfBusinessDay (new_BusinessTime 1526860800000 None None)
   = Some (new_BusinessTime 1526921999999 None None, new_BusinessTime 1526947199999 None None)"
  by (simp add: endOfBusinessDay_def endOf_def calendar_defs engine_defs Let_def
      endOfBusinessDay_loop.simps)

text \<open>
  Claim C6, as stated: under the default constraints and 1-hour precision, the engine at
  Monday 2018-05-21T12:00:00Z has \<^verbatim>\<open>endOfBusinessDay()\<close> equal to 2018-05-21T16:00:00Z. It has
  not: the loop starts at the last millisecond of the day, 23:59:59.999, and steps back by
  whole hours, so it stops at 16:59:59.999.
\<close>

theorem endOfBusinessDay_monday_counterexample:
  "map_option (moment \<circ> fst)
     (endOfBusinessDay (new_BusinessTime (utc 2018 5 21 12 0 0 0) None None))
   \<noteq> Some (utc 2018 5 21 16 0 0 0)"
  by (simp add: monday_noon_values endOfBusinessDay_monday_noon)
     (simp add: new_BusinessTime_def)

text \<open>
  Claim C6, amended: under the default constraints and 1-hour precision, the engine at
  Monday 2018-05-21T12:00:00Z has \<^verbatim>\<open>startOfBusinessDay()\<close> equal to 2018-05-21T09:00:00Z and
  \<^verbatim>\<open>endOfBusinessDay()\<close> equal to 2018-05-21T16:59:59.999Z, each with the receiver's precision
  and constraints; the end is the same when it is asked of the receiver after the start.
\<close>

theorem business_day_of_monday_noon:
  "map_option fst (startOfBusinessDay (new_BusinessTime (utc 2018 5 21 12 0 0 0) None None))
     = Some (new_BusinessTime (utc 2018 5 21 9 0 0 0) None None) \<and>
   map_option fst (endOfBusinessDay (new_BusinessTime (utc 2018 5 21 12 0 0 0) None None))
     = Some (new_BusinessTime (utc 2018 5 21 16 59 59 999) None None) \<and>
   Option.bind (startOfBusinessDay (new_BusinessTime (utc 2018 5 21 12 0 0 0) None None))
     (\<lambda>(start, this'). map_option fst (endOfBusinessDay this'))
     = Some (new_BusinessTime (utc 2018 5 21 16 59 59 999) None None)"
  by (simp add: monday_noon_values startOfBusinessDay_monday_noon endOfBusinessDay_monday_noon
      endOfBusinessDay_monday_midnight)

section \<open>The receiver of a transformation\<close>

text \<open>
  Claim C2 says that every transformation, \<^verbatim>\<open>startOf\<close>, \<^verbatim>\<open>endOf\<close>, \<^verbatim>\<open>startOfBusinessDay\<close> and
  \<^verbatim>\<open>endOfBusinessDay\<close> among them, leaves the receiver's instant unchanged. The code at the
  engine of Monday 2018-05-21T12:00:00Z: after \<^verbatim>\<open>startOf("day")\<close> and after
  \<^verbatim>\<open>startOfBusinessDay()\<close> the receiver's instant is 00:00:00.000 of that day, after
  \<^verbatim>\<open>endOf("day")\<close> and after \<^verbatim>\<open>endOfBusinessDay()\<close> it is 23:59:59.999; \<^verbatim>\<open>add\<close>, \<^verbatim>\<open>subtract\<close> and
  \<^verbatim>\<open>clone\<close> work on a copy.
\<close>

theorem startOf_moves_receiver:
  "moment (new_BusinessTime (utc 2018 5 21 12 0 0 0) None None) = utc 2018 5 21 12 0 0 0 \<and>
   moment (snd (startOf Day (new_BusinessTime (utc 2018 5 21 12 0 0 0) None None)))
     = utc 2018 5 21 0 0 0 0 \<and>
   moment (snd (endOf Day (new_BusinessTime (utc 2018 5 21 12 0 0 0) None None)))
     = utc 2018 5 21 23 59 59 999 \<and>
   map_option (moment \<circ> snd)
     (startOfBusinessDay (new_BusinessTime (utc 2018 5 21 12 0 0 0) None None))
     = Some (utc 2018 5 21 0 0 0 0) \<and>
   map_option (moment \<circ> snd)
     (endOfBusinessDay (new_BusinessTime (utc 2018 5 21 12 0 0 0) None None))
     = Some (utc 2018 5 21 23 59 59 999) \<and>
   utc 2018 5 21 0 0 0 0 \<noteq> utc 2018 5 21 12 0 0 0 \<and>
   utc 2018 5 21 23 59 59 999 \<noteq> utc 2018 5 21 12 0 0 0"
  by (simp add: monday_noon_values startOfBusinessDay_monday_noon endOfBusinessDay_monday_noon)
     (simp add: new_BusinessTime_def startOf_def endOf_def moment_startOf_def moment_endOf_def
      Let_def)

section \<open>Which constraints the difference counts\<close>

text \<open>The receiver's constraints do not occur in \<^verbatim>\<open>diffInBusinessTime\<close>: the stepping engine
  is constructed with the default constraints.\<close>

lemma diffInBusinessTime_ignores_constraints:
  "diffInBusinessTime (this\<lparr>constraints := cs\<rparr>) time absolute
   = diffInBusinessTime this time absolute"
  by (simp add: diffInBusinessTime_def getMoment_def isAfter_def)

text \<open>
  Claim C1 says that \<^verbatim>\<open>diffInBusinessTime\<close> counts the steps whose instant satisfies the
  engine's own \<^verbatim>\<open>isBusinessTime\<close>, the conjunction of its constraint list. The code at an
  engine with the empty constraint list (every instant is business time) and 1-hour
  precision, from Saturday 2018-05-26T00:00:00Z to 02:00:00Z: the two steps, 00:00 and 01:00,
  both satisfy the engine's \<^verbatim>\<open>isBusinessTime\<close>, so the count is 2 in the specification's
  words, and the code returns 0, the count under the default constraints.
\<close>

theorem diffInBusinessTime_counts_default_constraints:
  "isBusinessTime (new_BusinessTime (utc 2018 5 26 0 0 0 0) (Some (1 * ms_per Hour)) (Some [])) \<and>
   isBusinessTime (new_BusinessTime (utc 2018 5 26 1 0 0 0) (Some (1 * ms_per Hour)) (Some [])) \<and>
   business_steps (new_BusinessTime (utc 2018 5 26 0 0 0 0) (Some (1 * ms_per Hour)) (Some []))
     (utc 2018 5 26 2 0 0 0) (utc 2018 5 26 0 0 0 0) 0 = Some 2 \<and>
   diffInBusinessTime (new_BusinessTime (utc 2018 5 26 0 0 0 0) (Some (1 * ms_per Hour)) (Some []))
     (utc 2018 5 26 2 0 0 0) True = Some 0 \<and>
   diffInBusinessTime (new_BusinessTime (utc 2018 5 26 0 0 0 0) (Some (1 * ms_per Hour)) (Some []))
     (utc 2018 5 26 2 0 0 0) True
   = diffInBusinessTime (new_BusinessTime (utc 2018 5 26 0 0 0 0) (Some (1 * ms_per Hour)) None)
     (utc 2018 5 26 2 0 0 0) True"
  by (simp add: calendar_defs engine_defs Let_def diffInBusinessTime_def
      business_steps.simps diffInBusinessTime_loop.simps)

section \<open>Partial correctness of the backward day loop\<close>

text \<open>Whatever the constraints: the backward loop keeps the instant's residue modulo the
  precision, so at a precision of one hour the end of the business day, when there is one,
  lies one millisecond before a full hour.\<close>

lemma endOfBusinessDay_loop_residue:
  assumes "endOfBusinessDay_loop p e = Some r"
  shows "precision e = p \<longrightarrow>
    moment r mod p = moment e mod p \<and> precision r = p \<and> constraints r = constraints e"
proof (rule endOfBusinessDay_loop.raw_induct [OF _ assms])
  fix loop :: "duration \<Rightarrow> BusinessTime \<Rightarrow> BusinessTime option"
  fix p :: duration and e r :: BusinessTime
  assume IH: "\<And>q a b. loop q a = Some b \<Longrightarrow> precision a = q \<longrightarrow>
      moment b mod q = moment a mod q \<and> precision b = q \<and> constraints b = constraints a"
    and step: "(if \<not> isBusinessTime e then loop p (subtract e p Millisecond) else Some e)
      = Some r"
  show "precision e = p \<longrightarrow>
    moment r mod p = moment e mod p \<and> precision r = p \<and> constraints r = constraints e"
  proof (cases "isBusinessTime e")
    case True
    with step show ?thesis by simp
  next
    case False
    with step have "loop p (subtract e p Millisecond) = Some r" by simp
    from IH [OF this] show ?thesis
      by (simp add: subtract_def atMoment_def new_BusinessTime_def)
  qed
qed

lemma endOf_Day_hourly:
  "precision this = 3600000 \<Longrightarrow> precision (fst (endOf Day this)) = 3600000"
  "moment (fst (endOf Day this)) mod 3600000 = 3599999"
proof -
  show "precision this = 3600000 \<Longrightarrow> precision (fst (endOf Day this)) = 3600000"
    by (simp add: endOf_def Let_def atMoment_def new_BusinessTime_def)
  have "(t - t mod 86400000 + 86400000 - 1) mod 3600000 = 3599999" for t :: int
  proof -
    have "t - t mod 86400000 + 86400000 - 1
        = 3599999 + (24 * (t div 86400000) + 23) * 3600000"
      by (simp add: minus_mod_eq_mult_div)
    then show ?thesis
      by (simp only: mod_mult_self1) simp
  qed
  then show "moment (fst (endOf Day this)) mod 3600000 = 3599999"
    by (simp add: endOf_def Let_def atMoment_def new_BusinessTime_def moment_endOf_def)
qed

lemma endOfBusinessDay_hourly_residue:
  assumes "endOfBusinessDay this = Some (r, this')" and "precision this = 3600000"
  shows "moment r mod 3600000 = 3599999"
proof -
  from assms have "endOfBusinessDay_loop 3600000 (fst (endOf Day this)) = Some r"
    by (auto simp add: endOfBusinessDay_def endOf_def Let_def split: option.splits)
  from endOfBusinessDay_loop_residue [OF this] endOf_Day_hourly [of this] assms(2)
  show ?thesis
    by simp
qed

section \<open>Rounding\<close>

lemma floor_rat_numeral_divide [simp]:
  "\<lfloor>(numeral a :: rat) / numeral b\<rfloor> = numeral a div numeral b"
  using floor_divide_of_int_eq [of "numeral a" "numeral b", where ?'a = rat]
  by simp

lemma Big_round_0_0: "Big_round 0 0 x = truncate_toward_zero x"
proof (cases "0 \<le> x")
  case True
  then show ?thesis
    by (cases "x = 0") (simp_all add: Big_round_def round_magnitude_def truncate_toward_zero_def)
next
  case False
  then show ?thesis
    by (simp add: Big_round_def round_magnitude_def truncate_toward_zero_def ceiling_def)
qed

lemma Big_round_1_is_half_away: "Big_round 0 1 x = round_half_away_from_zero x"
  by (simp add: Big_round_def round_magnitude_def round_half_away_from_zero_def)

lemma monday_morning_values:
  "utc 2018 5 21 9 0 0 0 = 1526893200000"
  "utc 2018 5 22 13 0 0 0 = 1526994000000"
  "utc 2018 5 23 13 0 0 0 = 1527080400000"
  "utc 2018 5 24 9 0 0 0 = 1527152400000"
  by (simp_all add: calendar_defs)

lemma new_BusinessTime_defaults:
  "new_BusinessTime t None None = new_BusinessTime t (Some 3600000) (Some default_constraints)"
  by (simp add: new_BusinessTime_def default_precision_def)

lemma diffInBusinessTime_monday_tuesday:
  "diffInBusinessTime (new_BusinessTime 1526893200000 (Some 3600000) (Some default_constraints))
     1526994000000 True = Some 12"
  by (simp add: diffInBusinessTime_def calendar_defs engine_defs Let_def
      diffInBusinessTime_loop.simps)

text \<open>
  Claim C4, as stated: \<^verbatim>\<open>diffInBusinessDays\<close> is \<^verbatim>\<open>diffInPartialBusinessDays\<close> rounded to the
  nearest integer with ties away from zero, a partial difference of 1.5 giving 2. From
  Monday 2018-05-21T09:00:00Z to Tuesday 13:00:00Z under the defaults the partial difference
  is 1.5 (12 business hours of an 8-hour day), which rounds to 2, and \<^verbatim>\<open>diffInBusinessDays\<close>
  returns 1.
\<close>

theorem diffInBusinessDays_tie_counterexample:
  "map_option fst
     (diffInPartialBusinessDays (new_BusinessTime (utc 2018 5 21 9 0 0 0) None None)
        (utc 2018 5 22 13 0 0 0) True) = Some (Returned (3 / 2)) \<and>
   round_half_away_from_zero (3 / 2) = 2 \<and>
   map_option fst
     (diffInBusinessDays (new_BusinessTime (utc 2018 5 21 9 0 0 0) None None)
        (utc 2018 5 22 13 0 0 0) True) = Some (Returned 1)"
proof -
  have partial: "diffInPartialBusinessDays
      (new_BusinessTime 1526893200000 (Some 3600000) (Some default_constraints))
      1526994000000 True
    = Some (Returned (3 / 2),
        (new_BusinessTime 1526893200000 (Some 3600000) (Some default_constraints))
          \<lparr>lengthOfBusinessDayCached := Some 28800000\<rparr>)"
    by (simp add: diffInPartialBusinessDays_def diffInBusinessTime_monday_tuesday
        lengthOfBusinessDay_hourly_defaults)
       (simp add: new_BusinessTime_def Big_div_def number_div_def asSeconds_def Big_round_def
        round_magnitude_def)
  have "truncate_toward_zero (3 / 2) = 1"
    by (simp add: truncate_toward_zero_def)
  with partial show ?thesis
    by (simp add: monday_morning_values new_BusinessTime_defaults diffInBusinessDays_def
        Big_round_0_0 round_half_away_from_zero_def)
qed

text \<open>
  Claim C4, amended: for every pair of instants and both values of the absolute flag,
  \<^verbatim>\<open>diffInBusinessDays\<close> is \<^verbatim>\<open>diffInPartialBusinessDays\<close> rounded towards zero to an integer
  (a partial difference of 1.5 gives 1, and 0.7 gives 0); it throws or fails to return
  exactly as \<^verbatim>\<open>diffInPartialBusinessDays\<close> does, with the same effect on the receiver.
\<close>

theorem diffInBusinessDays_truncates:
  "diffInBusinessDays this time absolute
   = map_option (\<lambda>(r, this'). (map_outcome truncate_toward_zero r, this'))
       (diffInPartialBusinessDays this time absolute)"
  by (simp add: diffInBusinessDays_def Big_round_0_0
      split: option.splits prod.splits outcome.splits)

section \<open>The whole-day jump\<close>

lemma diffInBusinessTime_monday_wednesday:
  "diffInBusinessTime (new_BusinessTime 1526893200000 (Some 3600000) (Some default_constraints))
     1527066000000 True = Some 16"
  by (simp add: diffInBusinessTime_def calendar_defs engine_defs Let_def
      diffInBusinessTime_loop.simps)

lemma diffInBusinessTime_monday_thursday:
  "diffInBusinessTime (new_BusinessTime 1526893200000 (Some 3600000) (Some default_constraints))
     1527152400000 True = Some 24"
  by (simp add: diffInBusinessTime_def calendar_defs engine_defs Let_def
      diffInBusinessTime_loop.simps)

lemma lengthOfBusinessDay_cached:
  "lengthOfBusinessDay (this\<lparr>lengthOfBusinessDayCached := Some d\<rparr>)
   = Some (Returned d, this\<lparr>lengthOfBusinessDayCached := Some d\<rparr>)"
  by (simp add: lengthOfBusinessDay_def)

lemma Big_div_hour_of_8h:
  "Big_div (asDays 3600000) (Finite (asDays 28800000)) = Returned (1 / 8)"
  by (simp add: Big_div_def asDays_def Big_round_def round_magnitude_def)

lemma Big_div_by_8:
  "Big_div 16 (number_div (asSeconds 28800000) (asSeconds 3600000)) = Returned 2"
  "Big_div 24 (number_div (asSeconds 28800000) (asSeconds 3600000)) = Returned 3"
  by (simp_all add: Big_div_def number_div_def asSeconds_def Big_round_def round_magnitude_def)

lemma addBusinessDays_loop_wednesday:
  "addBusinessDays_loop 3600000 (1 / 8) (1 / 2)
     (new_BusinessTime 1527066000000 (Some 3600000) (Some default_constraints))
   = Some (new_BusinessTime 1527080400000 (Some 3600000) (Some default_constraints))"
  by (simp add: addBusinessDays_loop.simps engine_defs)

lemma addBusinessDays_loop_done:
  "\<not> 0 < residual \<Longrightarrow> addBusinessDays_loop p decrement residual next = Some next"
  by (simp add: addBusinessDays_loop.simps)

lemma subBusinessDays_loop_done:
  "\<not> 0 < residual \<Longrightarrow> subBusinessDays_loop p decrement residual prev = Some prev"
  by (simp add: subBusinessDays_loop.simps)

lemma new_BusinessTime_sel:
  "moment (new_BusinessTime t p c) = t"
  "precision (new_BusinessTime t (Some q) c) = q"
  "constraints (new_BusinessTime t p (Some cs)) = cs"
  "lengthOfBusinessDayCached (new_BusinessTime t p c) = None"
  by (simp_all add: new_BusinessTime_def)

lemma diffInPartialBusinessDays_monday:
  "diffInPartialBusinessDays
     (new_BusinessTime 1526893200000 (Some 3600000) (Some default_constraints))
     1527066000000 True
   = Some (Returned 2,
       (new_BusinessTime 1526893200000 (Some 3600000) (Some default_constraints))
         \<lparr>lengthOfBusinessDayCached := Some 28800000\<rparr>)"
  "diffInPartialBusinessDays
     (new_BusinessTime 1526893200000 (Some 3600000) (Some default_constraints))
     1527152400000 True
   = Some (Returned 3,
       (new_BusinessTime 1526893200000 (Some 3600000) (Some default_constraints))
         \<lparr>lengthOfBusinessDayCached := Some 28800000\<rparr>)"
  by (simp_all add: diffInPartialBusinessDays_def lengthOfBusinessDay_hourly_defaults
      diffInBusinessTime_monday_wednesday diffInBusinessTime_monday_thursday
      new_BusinessTime_sel Big_div_by_8)

lemma correct_by_residual_wednesday:
  "correct_by_residual addBusinessDays_loop (5 / 2)
     (new_BusinessTime 1527066000000 (Some 3600000) (Some default_constraints))
     (new_BusinessTime 1526893200000 (Some 3600000) (Some default_constraints))
   = Some (Returned (new_BusinessTime 1527080400000 (Some 3600000) (Some default_constraints)),
       (new_BusinessTime 1526893200000 (Some 3600000) (Some default_constraints))
         \<lparr>lengthOfBusinessDayCached := Some 28800000\<rparr>)"
  by (simp add: correct_by_residual_def getMoment_def new_BusinessTime_sel
      diffInPartialBusinessDays_monday lengthOfBusinessDay_cached Big_div_hour_of_8h
      addBusinessDays_loop_wednesday)

lemma correct_by_residual_thursday:
  "correct_by_residual addBusinessDays_loop (5 / 2)
     (new_BusinessTime 1527152400000 (Some 3600000) (Some default_constraints))
     (new_BusinessTime 1526893200000 (Some 3600000) (Some default_constraints))
   = Some (Returned (new_BusinessTime 1527152400000 (Some 3600000) (Some default_constraints)),
       (new_BusinessTime 1526893200000 (Some 3600000) (Some default_constraints))
         \<lparr>lengthOfBusinessDayCached := Some 28800000\<rparr>)"
  by (simp add: correct_by_residual_def getMoment_def new_BusinessTime_sel
      diffInPartialBusinessDays_monday lengthOfBusinessDay_cached Big_div_hour_of_8h
      addBusinessDays_loop_done)

text \<open>
  Claim C3, as stated: the jump of \<^verbatim>\<open>addBusinessDays(n)\<close> is \<open>n\<close> rounded to the nearest
  integer with ties away from zero, 2.5 jumping 3 days. The rounding of 2.5 with ties away
  from zero is 3, and \<open>daysToJump\<close> of 2.5 is 2. From Monday 2018-05-21T09:00:00Z under the
  defaults, \<^verbatim>\<open>addBusinessDays(2.5)\<close> jumps to Wednesday 09:00 and steps on to Wednesday
  13:00:00Z; after a jump of 3 days the same correction would stay at Thursday 09:00:00Z.
\<close>

theorem daysToJump_tie_counterexample:
  "round_half_away_from_zero (5 / 2) = 3 \<and>
   daysToJump (5 / 2) = 2 \<and>
   map_option (map_outcome moment \<circ> fst)
     (addBusinessDays (5 / 2) (new_BusinessTime (utc 2018 5 21 9 0 0 0) None None))
     = Some (Returned (utc 2018 5 23 13 0 0 0)) \<and>
   map_option (map_outcome moment \<circ> fst)
     (correct_by_residual addBusinessDays_loop (5 / 2)
        (add (new_BusinessTime (utc 2018 5 21 9 0 0 0) None None) 3 Day)
        (new_BusinessTime (utc 2018 5 21 9 0 0 0) None None))
     = Some (Returned (utc 2018 5 24 9 0 0 0)) \<and>
   utc 2018 5 23 13 0 0 0 \<noteq> utc 2018 5 24 9 0 0 0"
proof -
  have jump: "daysToJump (5 / 2) = 2"
    by (simp add: daysToJump_def Big_round_0_0 truncate_toward_zero_def)
  have two: "add (new_BusinessTime 1526893200000 (Some 3600000) (Some default_constraints)) 2 Day
      = new_BusinessTime 1527066000000 (Some 3600000) (Some default_constraints)"
    and three: "add (new_BusinessTime 1526893200000 (Some 3600000) (Some default_constraints)) 3 Day
      = new_BusinessTime 1527152400000 (Some 3600000) (Some default_constraints)"
    by (simp_all add: add_def atMoment_def new_BusinessTime_def)
  show ?thesis
    by (simp add: jump round_half_away_from_zero_def monday_morning_values
        new_BusinessTime_defaults addBusinessDays_def addBusinessDays_forward_def
        Number_of_Big_def two three correct_by_residual_wednesday correct_by_residual_thursday
        new_BusinessTime_sel)
qed

text \<open>
  Claim C3, amended: for every business-day count \<open>n \<ge> 0\<close>, \<^verbatim>\<open>addBusinessDays(n)\<close> and
  \<^verbatim>\<open>subBusinessDays(n)\<close> first jump by \<open>daysToJump\<close> whole calendar days, where \<open>daysToJump\<close> is
  \<open>n\<close> rounded towards zero, the integer part of \<open>n\<close> (2.5 jumps 2 days), before correcting
  by the residual.
\<close>

theorem jump_is_integer_part:
  "0 \<le> n \<Longrightarrow>
   daysToJump n = of_int \<lfloor>n\<rfloor> \<and>
   addBusinessDays n this
     = correct_by_residual addBusinessDays_loop n
         (atMoment this (moment this + \<lfloor>n\<rfloor> * ms_per Day)) this \<and>
   subBusinessDays n this
     = correct_by_residual subBusinessDays_loop n
         (atMoment this (moment this - \<lfloor>n\<rfloor> * ms_per Day)) this"
  by (simp add: daysToJump_def Big_round_0_0 truncate_toward_zero_def addBusinessDays_def
      subBusinessDays_def addBusinessDays_forward_def subBusinessDays_backward_def
      Number_of_Big_def add_def subtract_def)

theorem jump_is_integer_part_witness:
  "(0::rat) \<le> 5 / 2 \<and> daysToJump (5 / 2) = 2 \<and>
   addBusinessDays (5 / 2) (new_BusinessTime 0 None None)
     = correct_by_residual addBusinessDays_loop (5 / 2)
         (atMoment (new_BusinessTime 0 None None) (2 * ms_per Day)) (new_BusinessTime 0 None None) \<and>
   subBusinessDays (5 / 2) (new_BusinessTime 0 None None)
     = correct_by_residual subBusinessDays_loop (5 / 2)
         (atMoment (new_BusinessTime 0 None None) (- 2 * ms_per Day)) (new_BusinessTime 0 None None)"
proof -
  have m: "moment (new_BusinessTime 0 None None) = 0"
    by (simp add: new_BusinessTime_def)
  show ?thesis
    using jump_is_integer_part [of "5 / 2" "new_BusinessTime 0 None None"]
    by (simp add: m)
qed

section \<open>Adding and subtracting no business days\<close>

lemma ms_per_positive: "0 < ms_per u"
  by (cases u) simp_all

lemma isSame_self: "isSame t t u"
  using pos_mod_sign [OF ms_per_positive, of t u] pos_mod_bound [OF ms_per_positive, of t u]
  by (simp add: isSame_def moment_startOf_def moment_endOf_def)

lemma diffInBusinessTime_self: "diffInBusinessTime this (moment this) absolute = Some 0"
  by (simp add: diffInBusinessTime_def getMoment_def isSame_self)

lemma determineLengthOfBusinessDay_sets:
  "determineLengthOfBusinessDay typicalDay this = Some x \<Longrightarrow>
   \<exists>len. x = setLengthOfBusinessDay len this"
  by (auto simp add: determineLengthOfBusinessDay_def Let_def split: option.splits prod.splits)

lemma lengthOfBusinessDay_Returned:
  assumes "lengthOfBusinessDay this = Some (Returned len, this')"
  shows "lengthOfBusinessDayCached this' = Some len \<and> moment this' = moment this \<and>
    precision this' = precision this \<and> constraints this' = constraints this"
proof (cases "lengthOfBusinessDayCached this")
  case (Some d)
  with assms show ?thesis
    by (simp add: lengthOfBusinessDay_def)
next
  case None
  with assms obtain x where det: "determineLengthOfBusinessDay None this = Some x"
    and res: "(case x of (Threw e, s) \<Rightarrow> Some (Threw e, s)
        | (Returned r, s) \<Rightarrow> Some (Returned (the (lengthOfBusinessDayCached s)), s))
      = Some (Returned len, this')"
    by (auto simp add: lengthOfBusinessDay_def split: option.splits)
  from determineLengthOfBusinessDay_sets [OF det] obtain l
    where "x = setLengthOfBusinessDay l this" ..
  with res show ?thesis
    by (auto simp add: setLengthOfBusinessDay_def Let_def split: if_splits)
qed

lemma Big_div_zero:
  "len \<noteq> 0 \<Longrightarrow> p \<noteq> 0 \<Longrightarrow> Big_div 0 (number_div (asSeconds len) (asSeconds p)) = Returned 0"
  by (simp add: Big_div_def number_div_def asSeconds_def Big_round_def round_magnitude_def)

lemma Big_div_asDays_returns:
  "len \<noteq> 0 \<Longrightarrow> \<exists>decrement. Big_div (asDays p) (Finite (asDays len)) = Returned decrement"
  by (simp add: Big_div_def asDays_def)

lemma correct_by_residual_nothing:
  assumes len: "lengthOfBusinessDay this = Some (Returned len, this')"
    and "len \<noteq> 0" and "precision this \<noteq> 0"
    and finished: "\<And>p decrement. loop p decrement 0 (atMoment this (moment this))
      = Some (atMoment this (moment this))"
  shows "correct_by_residual loop 0 (atMoment this (moment this)) this
    = Some (Returned (atMoment this (moment this)), this')"
proof -
  from lengthOfBusinessDay_Returned [OF len]
  have cached: "lengthOfBusinessDayCached this' = Some len"
    and prec: "precision this' = precision this"
    by simp_all
  have partial: "diffInPartialBusinessDays this (getMoment (atMoment this (moment this))) True
      = Some (Returned 0, this')"
    using assms(2,3)
    by (simp add: diffInPartialBusinessDays_def getMoment_def atMoment_def new_BusinessTime_sel
        diffInBusinessTime_self len prec Big_div_zero)
  have again: "lengthOfBusinessDay this' = Some (Returned len, this')"
    by (simp add: lengthOfBusinessDay_def cached)
  from Big_div_asDays_returns [OF assms(2)] obtain decrement
    where "Big_div (asDays (precision this')) (Finite (asDays len)) = Returned decrement" ..
  with partial again show ?thesis
    by (simp add: correct_by_residual_def finished)
qed

text \<open>The default constraints at a precision of 25 hours: the reference day's business day
  is found to start on Friday 2018-06-01 09:00:00.000 and to end on Wednesday 2018-05-16
  16:59:59.999, one business step of 25 hours lies between the two, and the length of 25
  hours is rejected.\<close>

lemma startOfBusinessDay_typical_25h:
  "startOfBusinessDay (new_BusinessTime 1527033600000 (Some 90000000) (Some default_constraints))
   = Some (new_BusinessTime 1527843600000 (Some 90000000) (Some default_constraints),
           new_BusinessTime 1527033600000 (Some 90000000) (Some default_constraints))"
  by (simp add: startOfBusinessDay_def startOf_def calendar_defs engine_defs Let_def
      startOfBusinessDay_loop.simps)

lemma endOfBusinessDay_typical_25h:
  "endOfBusinessDay (new_BusinessTime 1527033600000 (Some 90000000) (Some default_constraints))
   = Some (new_BusinessTime 1526489999999 (Some 90000000) (Some default_constraints),
           new_BusinessTime 1527119999999 (Some 90000000) (Some default_constraints))"
  by (simp add: endOfBusinessDay_def endOf_def calendar_defs engine_defs Let_def
      endOfBusinessDay_loop.simps)

lemma diffBusiness_typical_25h:
  "diffBusiness (new_BusinessTime 1527843600000 (Some 90000000) (Some default_constraints))
     1526489999999 True = Some 90000000"
  by (simp add: diffBusiness_def diffInBusinessTime_def calendar_defs engine_defs Let_def
      diffInBusinessTime_loop.simps duration_of_seconds_def asSeconds_def)

lemma lengthOfBusinessDay_25h:
  "lengthOfBusinessDay (new_BusinessTime t (Some 90000000) (Some default_constraints))
   = Some (Threw BusinessDayTooLong,
       (new_BusinessTime t (Some 90000000) (Some default_constraints))
         \<lparr>lengthOfBusinessDayCached := Some 90000000\<rparr>)"
proof -
  have "atMoment (new_BusinessTime t (Some 90000000) (Some default_constraints)) m
      = new_BusinessTime m (Some 90000000) (Some default_constraints)" for m
    by (simp add: atMoment_def new_BusinessTime_def)
  then have "determineLengthOfBusinessDay None
      (new_BusinessTime t (Some 90000000) (Some default_constraints))
    = Some (setLengthOfBusinessDay 90000000
        (new_BusinessTime t (Some 90000000) (Some default_constraints)))"
    by (simp add: determineLengthOfBusinessDay_def typicalDay_default_value getMoment_def
        startOfBusinessDay_typical_25h endOfBusinessDay_typical_25h new_BusinessTime_sel
        diffBusiness_typical_25h)
  then show ?thesis
    by (simp add: lengthOfBusinessDay_def new_BusinessTime_sel setLengthOfBusinessDay_def
        asMinutes_def asHours_def Let_def)
qed

lemma daysToJump_zero: "Number_of_Big (daysToJump 0) = 0"
  by (simp add: Number_of_Big_def daysToJump_def Big_round_0_0 truncate_toward_zero_def)

lemma zero_business_days_throw:
  assumes "lengthOfBusinessDay this = Some (Threw err, this')"
  shows "addBusinessDays 0 this = Some (Threw err, this')"
    and "subBusinessDays 0 this = Some (Threw err, this')"
  using assms
  by (simp_all add: addBusinessDays_def subBusinessDays_def addBusinessDays_forward_def
      subBusinessDays_backward_def correct_by_residual_def diffInPartialBusinessDays_def
      daysToJump_zero getMoment_def add_def subtract_def atMoment_def new_BusinessTime_sel
      diffInBusinessTime_self)

text \<open>
  Claim C8, as stated: for every engine, \<^verbatim>\<open>addBusinessDays(0)\<close> and \<^verbatim>\<open>subBusinessDays(0)\<close>
  return an engine at the receiver's instant. Both need the length of the business day,
  also for an amount of zero; at the engine with the default constraints and a precision of
  25 hours its determination throws, and so do both methods.
\<close>

theorem add_zero_business_days_counterexample:
  "map_option fst
     (addBusinessDays 0
        (new_BusinessTime (utc 2018 5 21 12 0 0 0) (Some (25 * ms_per Hour)) None))
     = Some (Threw BusinessDayTooLong) \<and>
   map_option fst
     (subBusinessDays 0
        (new_BusinessTime (utc 2018 5 21 12 0 0 0) (Some (25 * ms_per Hour)) None))
     = Some (Threw BusinessDayTooLong)"
proof -
  have e: "new_BusinessTime t (Some (25 * ms_per Hour)) None
      = new_BusinessTime t (Some 90000000) (Some default_constraints)" for t
    by (simp add: new_BusinessTime_def)
  show ?thesis
    unfolding e
    by (simp add: zero_business_days_throw [OF lengthOfBusinessDay_25h])
qed

text \<open>
  Claim C8, amended: for every engine whose precision is not zero and whose
  \<^verbatim>\<open>lengthOfBusinessDay()\<close> returns a duration that is not zero, \<^verbatim>\<open>addBusinessDays(0)\<close> and
  \<^verbatim>\<open>subBusinessDays(0)\<close> each return a new engine at the receiver's instant, with the
  receiver's precision and constraints; the receiver is left as \<^verbatim>\<open>lengthOfBusinessDay()\<close>
  leaves it.
\<close>

theorem add_zero_business_days:
  assumes "lengthOfBusinessDay this = Some (Returned len, this')"
    and "len \<noteq> 0" and "precision this \<noteq> 0"
  shows "addBusinessDays 0 this = Some (Returned (atMoment this (moment this)), this') \<and>
    subBusinessDays 0 this = Some (Returned (atMoment this (moment this)), this') \<and>
    moment (atMoment this (moment this)) = moment this \<and>
    precision (atMoment this (moment this)) = precision this \<and>
    constraints (atMoment this (moment this)) = constraints this"
proof -
  have "addBusinessDays 0 this = Some (Returned (atMoment this (moment this)), this')"
    using correct_by_residual_nothing [OF assms, of addBusinessDays_loop]
    by (simp add: addBusinessDays_def addBusinessDays_forward_def daysToJump_zero add_def
        addBusinessDays_loop_done)
  moreover have "subBusinessDays 0 this = Some (Returned (atMoment this (moment this)), this')"
    using correct_by_residual_nothing [OF assms, of subBusinessDays_loop]
    by (simp add: subBusinessDays_def subBusinessDays_backward_def daysToJump_zero subtract_def
        subBusinessDays_loop_done)
  ultimately show ?thesis
    by (simp add: atMoment_def new_BusinessTime_sel)
qed

theorem add_zero_business_days_witness:
  "addBusinessDays 0 (new_BusinessTime (utc 2018 5 21 12 0 0 0) None None)
     = Some (Returned (new_BusinessTime (utc 2018 5 21 12 0 0 0) None None),
         (new_BusinessTime (utc 2018 5 21 12 0 0 0) None None)
           \<lparr>lengthOfBusinessDayCached := Some (8 * ms_per Hour)\<rparr>) \<and>
   subBusinessDays 0 (new_BusinessTime (utc 2018 5 21 12 0 0 0) None None)
     = Some (Returned (new_BusinessTime (utc 2018 5 21 12 0 0 0) None None),
         (new_BusinessTime (utc 2018 5 21 12 0 0 0) None None)
           \<lparr>lengthOfBusinessDayCached := Some (8 * ms_per Hour)\<rparr>)"
proof -
  let ?e = "new_BusinessTime (utc 2018 5 21 12 0 0 0) (Some 3600000) (Some default_constraints)"
  have len: "lengthOfBusinessDay ?e
      = Some (Returned 28800000, ?e\<lparr>lengthOfBusinessDayCached := Some 28800000\<rparr>)"
    by (rule lengthOfBusinessDay_hourly_defaults)
  have nz: "(28800000::int) \<noteq> 0" and p: "precision ?e \<noteq> 0"
    by (simp_all add: new_BusinessTime_sel)
  have at: "atMoment ?e (moment ?e) = ?e"
    by (simp add: atMoment_def new_BusinessTime_def)
  from add_zero_business_days [OF len nz p] show ?thesis
    by (simp add: at new_BusinessTime_defaults)
qed

section \<open>Symmetry of the difference\<close>

lemma isSame_Minute_sym: "isSame a b Minute = isSame b a Minute"
proof -
  define qa ra qb rb
    where "qa = a div 60000" and "ra = a mod 60000"
      and "qb = b div 60000" and "rb = b mod 60000"
  have a: "a = 60000 * qa + ra" and b: "b = 60000 * qb + rb"
    by (simp_all add: qa_def ra_def qb_def rb_def)
  have bounds: "0 \<le> ra" "ra < 60000" "0 \<le> rb" "rb < 60000"
    by (simp_all add: ra_def rb_def)
  have "isSame a b Minute \<longleftrightarrow> a - ra \<le> b \<and> b \<le> a - ra + 59999"
    by (auto simp add: isSame_def moment_startOf_def moment_endOf_def ra_def)
  also have "\<dots> \<longleftrightarrow> qa = qb"
    using bounds by (auto simp add: a b)
  also have "\<dots> \<longleftrightarrow> b - rb \<le> a \<and> a \<le> b - rb + 59999"
    using bounds by (auto simp add: a b)
  also have "\<dots> \<longleftrightarrow> isSame b a Minute"
    by (auto simp add: isSame_def moment_startOf_def moment_endOf_def rb_def)
  finally show ?thesis .
qed

lemma diffInBusinessTime_swap:
  assumes "precision eb = precision ea"
  shows "diffInBusinessTime eb (moment ea) absolute
    = map_option (\<lambda>d. if absolute then d else - d) (diffInBusinessTime ea (moment eb) absolute)"
proof (cases "isSame (moment ea) (moment eb) Minute")
  case True
  then show ?thesis
    using isSame_Minute_sym [of "moment ea" "moment eb"]
    by (simp add: diffInBusinessTime_def getMoment_def)
next
  case False
  then have other: "\<not> isSame (moment eb) (moment ea) Minute"
    by (simp add: isSame_Minute_sym)
  from False have "moment ea \<noteq> moment eb"
    using isSame_self [of "moment ea" Minute] by auto
  then consider "moment ea < moment eb" | "moment eb < moment ea"
    by linarith
  then show ?thesis
  proof cases
    case 1
    with False other assms show ?thesis
      by (simp add: diffInBusinessTime_def getMoment_def isAfter_def split: option.splits)
  next
    case 2
    with False other assms show ?thesis
      by (simp add: diffInBusinessTime_def getMoment_def isAfter_def split: option.splits)
  qed
qed

lemma setLengthOfBusinessDay_moment:
  "setLengthOfBusinessDay d (this\<lparr>moment := m\<rparr>)
   = (case setLengthOfBusinessDay d this of
        (r, s) \<Rightarrow> (map_outcome (\<lambda>e. e\<lparr>moment := m\<rparr>) r, s\<lparr>moment := m\<rparr>))"
  by (simp add: setLengthOfBusinessDay_def Let_def)

lemma determineLengthOfBusinessDay_moment:
  "determineLengthOfBusinessDay typicalDay (this\<lparr>moment := m\<rparr>)
   = map_option (\<lambda>(r, s). (map_outcome (\<lambda>e. e\<lparr>moment := m\<rparr>) r, s\<lparr>moment := m\<rparr>))
       (determineLengthOfBusinessDay typicalDay this)"
  by (simp add: determineLengthOfBusinessDay_def atMoment_def Let_def
      setLengthOfBusinessDay_moment split: option.splits prod.splits)

lemma lengthOfBusinessDay_moment:
  "lengthOfBusinessDay (this\<lparr>moment := m\<rparr>)
   = map_option (\<lambda>(r, s). (r, s\<lparr>moment := m\<rparr>)) (lengthOfBusinessDay this)"
  by (simp add: lengthOfBusinessDay_def determineLengthOfBusinessDay_moment
      split: option.splits prod.splits outcome.splits)

lemma Big_round_minus: "Big_round dp rm (- x) = - Big_round dp rm x"
  by (simp add: Big_round_def sgn_minus)

lemma Big_div_minus: "Big_div (- x) y = map_outcome uminus (Big_div x y)"
  by (simp add: Big_div_def Big_round_minus split: number.splits)

lemma diffInPartialBusinessDays_outcome:
  "map_option fst (diffInPartialBusinessDays this time absolute)
   = (case diffInBusinessTime this time absolute of
        None \<Rightarrow> None
      | Some diff \<Rightarrow>
          (case map_option fst (lengthOfBusinessDay this) of
             None \<Rightarrow> None
           | Some (Threw e) \<Rightarrow> Some (Threw e)
           | Some (Returned len) \<Rightarrow>
               Some (Big_div diff (number_div (asSeconds len) (asSeconds (precision this))))))"
  by (auto simp add: diffInPartialBusinessDays_def dest: lengthOfBusinessDay_Returned
      split: option.splits prod.splits outcome.splits)

lemma diffInPartialBusinessDays_swap:
  "map_option fst
     (diffInPartialBusinessDays
        \<lparr>moment = b, precision = p, constraints = cs, lengthOfBusinessDayCached = c\<rparr> a absolute)
   = map_option (map_outcome (\<lambda>d. if absolute then d else - d))
       (map_option fst
          (diffInPartialBusinessDays
             \<lparr>moment = a, precision = p, constraints = cs, lengthOfBusinessDayCached = c\<rparr> b
             absolute))"
proof -
  let ?ea = "\<lparr>moment = a, precision = p, constraints = cs, lengthOfBusinessDayCached = c\<rparr>"
  let ?eb = "\<lparr>moment = b, precision = p, constraints = cs, lengthOfBusinessDayCached = c\<rparr>"
  have len: "map_option fst (lengthOfBusinessDay ?eb) = map_option fst (lengthOfBusinessDay ?ea)"
    using lengthOfBusinessDay_moment [where this = ?ea and m = b]
    by (simp add: option.map_comp comp_def case_prod_unfold)
  have diff: "diffInBusinessTime ?eb a absolute
      = map_option (\<lambda>d. if absolute then d else - d) (diffInBusinessTime ?ea b absolute)"
    using diffInBusinessTime_swap [of ?eb ?ea absolute] by simp
  show ?thesis
    unfolding diffInPartialBusinessDays_outcome len diff
    by (cases absolute)
      (auto simp add: Big_div_minus outcome.map_ident
        split: option.splits outcome.splits)
qed

lemma truncate_toward_zero_minus: "truncate_toward_zero (- x) = - truncate_toward_zero x"
  using Big_round_minus [of 0 0 x] by (simp add: Big_round_0_0)

lemma diffInBusinessDays_outcome:
  "map_option fst (diffInBusinessDays this time absolute)
   = map_option (map_outcome truncate_toward_zero)
       (map_option fst (diffInPartialBusinessDays this time absolute))"
  by (simp add: diffInBusinessDays_def Big_round_0_0
      split: option.splits prod.splits outcome.splits)

lemma diffInBusinessDays_swap:
  "map_option fst
     (diffInBusinessDays
        \<lparr>moment = b, precision = p, constraints = cs, lengthOfBusinessDayCached = c\<rparr> a absolute)
   = map_option (map_outcome (\<lambda>d. if absolute then d else - d))
       (map_option fst
          (diffInBusinessDays
             \<lparr>moment = a, precision = p, constraints = cs, lengthOfBusinessDayCached = c\<rparr> b
             absolute))"
  unfolding diffInBusinessDays_outcome diffInPartialBusinessDays_swap [of b p cs c a absolute]
  by (cases absolute)
    (simp_all add: option.map_comp outcome.map_comp comp_def truncate_toward_zero_minus)

text \<open>Two engines with the same precision and constraints whose cached lengths differ.
  First, the default engine at Monday 2018-05-21T09:00:00Z on which a length of 4 hours has
  been set, and the default engine at Tuesday 09:00:00Z with nothing cached: 8 business
  hours lie between them, 2 days of 4 hours and 1 day of 8 hours. Second, at a precision of
  25 hours, the engine at Monday 09:00:00Z whose first \<^verbatim>\<open>lengthOfBusinessDay()\<close> has thrown
  and left 25 hours in its cache, and a new engine at Tuesday 10:00:00Z.\<close>

lemma tuesday_values:
  "utc 2018 5 22 9 0 0 0 = 1526979600000"
  "utc 2018 5 22 10 0 0 0 = 1526983200000"
  by (simp_all add: calendar_defs)

lemma diffInBusinessTime_monday_tuesday_morning:
  "diffInBusinessTime
     \<lparr>moment = 1526893200000, precision = 3600000, constraints = default_constraints,
       lengthOfBusinessDayCached = c\<rparr> 1526979600000 absolute = Some 8"
  "diffInBusinessTime
     \<lparr>moment = 1526979600000, precision = 3600000, constraints = default_constraints,
       lengthOfBusinessDayCached = c\<rparr> 1526893200000 absolute
   = Some (if absolute then 8 else - 8)"
  by (simp_all add: diffInBusinessTime_def calendar_defs engine_defs Let_def
      diffInBusinessTime_loop.simps)

lemma diffInBusinessTime_monday_tuesday_25h:
  "diffInBusinessTime
     \<lparr>moment = 1526893200000, precision = 90000000, constraints = default_constraints,
       lengthOfBusinessDayCached = c\<rparr> 1526983200000 True = Some 1"
  "diffInBusinessTime
     \<lparr>moment = 1526983200000, precision = 90000000, constraints = default_constraints,
       lengthOfBusinessDayCached = c\<rparr> 1526893200000 True = Some 1"
  by (simp_all add: diffInBusinessTime_def calendar_defs engine_defs Let_def
      diffInBusinessTime_loop.simps)

lemma Big_div_lengths:
  "Big_div 8 (number_div (asSeconds 14400000) (asSeconds 3600000)) = Returned 2"
  "Big_div 8 (number_div (asSeconds 28800000) (asSeconds 3600000)) = Returned 1"
  "Big_div (- 8) (number_div (asSeconds 28800000) (asSeconds 3600000)) = Returned (- 1)"
  "Big_div 1 (number_div (asSeconds 90000000) (asSeconds 90000000)) = Returned 1"
  by (simp_all add: Big_div_def number_div_def asSeconds_def Big_round_def round_magnitude_def)

lemma truncate_toward_zero_integers:
  "truncate_toward_zero 2 = 2" "truncate_toward_zero 1 = 1" "truncate_toward_zero (- 1) = - 1"
  by (simp_all add: truncate_toward_zero_def)

lemma diffInBusinessDays_length_4h:
  "map_option fst
     (diffInBusinessDays
        \<lparr>moment = 1526893200000, precision = 3600000, constraints = default_constraints,
          lengthOfBusinessDayCached = Some 14400000\<rparr> 1526979600000 absolute)
   = Some (Returned 2)"
  by (simp add: diffInBusinessDays_outcome diffInPartialBusinessDays_outcome
      diffInBusinessTime_monday_tuesday_morning lengthOfBusinessDay_def Big_div_lengths
      truncate_toward_zero_integers)

lemma diffInBusinessDays_length_lazy:
  "map_option fst
     (diffInBusinessDays
        \<lparr>moment = 1526979600000, precision = 3600000, constraints = default_constraints,
          lengthOfBusinessDayCached = None\<rparr> 1526893200000 absolute)
   = Some (Returned (if absolute then 1 else - 1))"
  using lengthOfBusinessDay_hourly_defaults [of 1526979600000]
  by (simp add: diffInBusinessDays_outcome diffInPartialBusinessDays_outcome
      diffInBusinessTime_monday_tuesday_morning new_BusinessTime_def Big_div_lengths
      truncate_toward_zero_integers)

lemma diffInBusinessDays_25h_after_throw:
  "map_option fst
     (diffInBusinessDays
        \<lparr>moment = 1526893200000, precision = 90000000, constraints = default_constraints,
          lengthOfBusinessDayCached = Some 90000000\<rparr> 1526983200000 True)
   = Some (Returned 1)"
  by (simp add: diffInBusinessDays_outcome diffInPartialBusinessDays_outcome
      diffInBusinessTime_monday_tuesday_25h lengthOfBusinessDay_def Big_div_lengths
      truncate_toward_zero_integers)

lemma diffInBusinessDays_25h_new:
  "map_option fst
     (diffInBusinessDays
        \<lparr>moment = 1526983200000, precision = 90000000, constraints = default_constraints,
          lengthOfBusinessDayCached = None\<rparr> 1526893200000 True)
   = Some (Threw BusinessDayTooLong)"
  using lengthOfBusinessDay_25h [of 1526983200000]
  by (simp add: diffInBusinessDays_outcome diffInPartialBusinessDays_outcome
      diffInBusinessTime_monday_tuesday_25h new_BusinessTime_def)

text \<open>
  Claim C9, as stated: for every pair of instants \<open>a\<close> and \<open>b\<close> and engines at them with the
  same precision and constraints, \<^verbatim>\<open>diffInBusinessDays\<close> is symmetric when \<open>absolute\<close> is true
  and antisymmetric when it is false. The result is divided by the receiver's own
  \<^verbatim>\<open>lengthOfBusinessDay()\<close>, which the two engines need not share. With a length of 4 hours
  set on the engine at Monday 09:00, the difference to Tuesday 09:00 is 2, and from the
  default engine at Tuesday 09:00 back it is 1 (and \<open>-1\<close> when \<open>absolute\<close> is false). At a
  precision of 25 hours, the engine at Monday 09:00 whose first \<^verbatim>\<open>lengthOfBusinessDay()\<close> has
  thrown returns 1 for Tuesday 10:00, and a new engine at Tuesday 10:00 throws.
\<close>

theorem diffInBusinessDays_symmetry_counterexample:
  "precision (snd (setLengthOfBusinessDay (4 * ms_per Hour)
       (new_BusinessTime (utc 2018 5 21 9 0 0 0) None None)))
     = precision (new_BusinessTime (utc 2018 5 22 9 0 0 0) None None) \<and>
   constraints (snd (setLengthOfBusinessDay (4 * ms_per Hour)
       (new_BusinessTime (utc 2018 5 21 9 0 0 0) None None)))
     = constraints (new_BusinessTime (utc 2018 5 22 9 0 0 0) None None) \<and>
   fst (setLengthOfBusinessDay (4 * ms_per Hour)
       (new_BusinessTime (utc 2018 5 21 9 0 0 0) None None))
     = Returned (snd (setLengthOfBusinessDay (4 * ms_per Hour)
         (new_BusinessTime (utc 2018 5 21 9 0 0 0) None None))) \<and>
   map_option fst
     (diffInBusinessDays
        (snd (setLengthOfBusinessDay (4 * ms_per Hour)
           (new_BusinessTime (utc 2018 5 21 9 0 0 0) None None)))
        (utc 2018 5 22 9 0 0 0) True) = Some (Returned 2) \<and>
   map_option fst
     (diffInBusinessDays (new_BusinessTime (utc 2018 5 22 9 0 0 0) None None)
        (utc 2018 5 21 9 0 0 0) True) = Some (Returned 1) \<and>
   map_option fst
     (diffInBusinessDays
        (snd (setLengthOfBusinessDay (4 * ms_per Hour)
           (new_BusinessTime (utc 2018 5 21 9 0 0 0) None None)))
        (utc 2018 5 22 9 0 0 0) False) = Some (Returned 2) \<and>
   map_option fst
     (diffInBusinessDays (new_BusinessTime (utc 2018 5 22 9 0 0 0) None None)
        (utc 2018 5 21 9 0 0 0) False) = Some (Returned (- 1)) \<and>
   map_option snd
     (lengthOfBusinessDay
        (new_BusinessTime (utc 2018 5 21 9 0 0 0) (Some (25 * ms_per Hour)) None))
     = Some ((new_BusinessTime (utc 2018 5 21 9 0 0 0) (Some (25 * ms_per Hour)) None)
         \<lparr>lengthOfBusinessDayCached := Some (25 * ms_per Hour)\<rparr>) \<and>
   map_option fst
     (diffInBusinessDays
        ((new_BusinessTime (utc 2018 5 21 9 0 0 0) (Some (25 * ms_per Hour)) None)
           \<lparr>lengthOfBusinessDayCached := Some (25 * ms_per Hour)\<rparr>)
        (utc 2018 5 22 10 0 0 0) True) = Some (Returned 1) \<and>
   map_option fst
     (diffInBusinessDays
        (new_BusinessTime (utc 2018 5 22 10 0 0 0) (Some (25 * ms_per Hour)) None)
        (utc 2018 5 21 9 0 0 0) True) = Some (Threw BusinessDayTooLong)"
proof -
  have set4: "setLengthOfBusinessDay (4 * ms_per Hour) (new_BusinessTime 1526893200000 None None)
      = (Returned
           \<lparr>moment = 1526893200000, precision = 3600000, constraints = default_constraints,
             lengthOfBusinessDayCached = Some 14400000\<rparr>,
         \<lparr>moment = 1526893200000, precision = 3600000, constraints = default_constraints,
           lengthOfBusinessDayCached = Some 14400000\<rparr>)"
    by (simp add: setLengthOfBusinessDay_def new_BusinessTime_def default_precision_def
        asMinutes_def asHours_def Let_def)
  have lazy: "new_BusinessTime t None None
      = \<lparr>moment = t, precision = 3600000, constraints = default_constraints,
          lengthOfBusinessDayCached = None\<rparr>" for t
    by (simp add: new_BusinessTime_def default_precision_def)
  have e25: "new_BusinessTime t (Some (25 * ms_per Hour)) None
      = \<lparr>moment = t, precision = 90000000, constraints = default_constraints,
          lengthOfBusinessDayCached = None\<rparr>" for t
    by (simp add: new_BusinessTime_def)
  have thrown: "map_option snd
      (lengthOfBusinessDay
         \<lparr>moment = 1526893200000, precision = 90000000, constraints = default_constraints,
           lengthOfBusinessDayCached = None\<rparr>)
    = Some \<lparr>moment = 1526893200000, precision = 90000000, constraints = default_constraints,
        lengthOfBusinessDayCached = Some 90000000\<rparr>"
    using lengthOfBusinessDay_25h [of 1526893200000]
    by (simp add: new_BusinessTime_def)
  show ?thesis
    unfolding monday_morning_values tuesday_values set4 e25
    by (simp add: lazy thrown diffInBusinessDays_length_4h diffInBusinessDays_length_lazy
        diffInBusinessDays_25h_after_throw diffInBusinessDays_25h_new)
qed

text \<open>
  Claim C9, amended: for every pair of instants \<open>a\<close> and \<open>b\<close> and engines at them with the
  same precision, the same constraints and the same cached length of the business day (in
  particular two engines with nothing cached), \<^verbatim>\<open>diffInBusinessDays\<close> is symmetric when
  \<open>absolute\<close> is true, and antisymmetric when it is false: the one call returns the negation
  of what the other returns; a call throws, or fails to return, exactly when the other does.
\<close>

theorem diffInBusinessDays_symmetry:
  "map_option fst
     (diffInBusinessDays
        \<lparr>moment = a, precision = p, constraints = cs, lengthOfBusinessDayCached = c\<rparr> b True)
   = map_option fst
       (diffInBusinessDays
          \<lparr>moment = b, precision = p, constraints = cs, lengthOfBusinessDayCached = c\<rparr> a True) \<and>
   map_option fst
     (diffInBusinessDays
        \<lparr>moment = a, precision = p, constraints = cs, lengthOfBusinessDayCached = c\<rparr> b False)
   = map_option (map_outcome uminus)
       (map_option fst
          (diffInBusinessDays
             \<lparr>moment = b, precision = p, constraints = cs, lengthOfBusinessDayCached = c\<rparr> a
             False))"
proof -
  have same: "map_outcome (\<lambda>d::rat. d) = (\<lambda>r. r)"
    by (rule ext) (simp add: outcome.map_ident)
  show ?thesis
    using diffInBusinessDays_swap [of a p cs c b True]
      diffInBusinessDays_swap [of a p cs c b False]
    by (simp add: same option.map_ident)
qed

end
